theory Spec2Isabelle
  imports Main "HOL-Library.Word"
begin

unbundle bit_operations_syntax

section \<open>Data of \<^verbatim>\<open>udp_echo.c\<close>\<close>

text \<open>
  A C \<^verbatim>\<open>int\<close> is a 32-bit word (\<open>sint\<close> reads it as signed), \<^verbatim>\<open>size_t\<close> a 64-bit
  word, \<^verbatim>\<open>uint16_t\<close> a 16-bit word. Buffers and the images of structs are lists of
  bytes in memory order.
\<close>

type_synonym byte = "8 word"
type_synonym c_int = "32 word"

text \<open>
  Modelled from the spec: the constants of the system headers (\<^verbatim>\<open>netinet/in.h\<close>,
  \<^verbatim>\<open>sys/socket.h\<close>) are not part of the repository; they carry their Linux values.
  An address family is IPv4 (\<open>AF_INET\<close>) or IPv6 (\<open>AF_INET6\<close>), a destination-info record
  is the pair \<open>(IPPROTO_IP, IP_PKTINFO)\<close> or \<open>(IPPROTO_IPV6, IPV6_PKTINFO)\<close>.
\<close>

definition AF_INET :: c_int where "AF_INET = 2"
definition AF_INET6 :: c_int where "AF_INET6 = 10"
definition IPPROTO_IP :: c_int where "IPPROTO_IP = 0"
definition SOL_IP :: c_int where "SOL_IP = 0"
definition IP_PKTINFO :: c_int where "IP_PKTINFO = 8"
definition IPPROTO_IPV6 :: c_int where "IPPROTO_IPV6 = 41"
definition IPV6_RECVPKTINFO :: c_int where "IPV6_RECVPKTINFO = 49"
definition IPV6_PKTINFO :: c_int where "IPV6_PKTINFO = 50"

text \<open>\<^verbatim>\<open>#define PORT 4040\<close>, \<^verbatim>\<open>#define DEBUG 1\<close>.\<close>

definition PORT :: "16 word" where "PORT = 4040"
definition DEBUG :: c_int where "DEBUG = 1"

text \<open>
  The sizes of the buffers of \<^verbatim>\<open>main\<close>: \<^verbatim>\<open>char cbuf[512]\<close>, \<^verbatim>\<open>char frame[8192]\<close>,
  \<^verbatim>\<open>struct sockaddr_storage rem_addr\<close> (128 bytes), and of the two structs that
  \<^verbatim>\<open>pktinfo_get\<close> fills: \<^verbatim>\<open>struct in_pktinfo\<close> is \<^verbatim>\<open>{int ipi_ifindex; struct in_addr
  ipi_spec_dst; struct in_addr ipi_addr;}\<close> (12 bytes), \<^verbatim>\<open>struct in6_pktinfo\<close> is
  \<^verbatim>\<open>{struct in6_addr ipi6_addr; unsigned int ipi6_ifindex;}\<close> (20 bytes).
\<close>

definition sizeof_cbuf :: nat where "sizeof_cbuf = 512"
definition sizeof_frame :: nat where "sizeof_frame = 8192"
definition sizeof_sockaddr_storage :: nat where "sizeof_sockaddr_storage = 128"
definition sizeof_in_pktinfo :: nat where "sizeof_in_pktinfo = 12"
definition sizeof_in6_pktinfo :: nat where "sizeof_in6_pktinfo = 20"

definition bytes_at :: "nat \<Rightarrow> nat \<Rightarrow> byte list \<Rightarrow> byte list" where
  "bytes_at off n m = take n (drop off m)"

text \<open>The fields of the two structs, read from their images.\<close>

definition ipi_ifindex :: "byte list \<Rightarrow> byte list" where
  "ipi_ifindex p = bytes_at 0 4 p"
definition ipi_spec_dst :: "byte list \<Rightarrow> byte list" where
  "ipi_spec_dst p = bytes_at 4 4 p"
definition ipi_addr :: "byte list \<Rightarrow> byte list" where
  "ipi_addr p = bytes_at 8 4 p"
definition ipi6_addr :: "byte list \<Rightarrow> byte list" where
  "ipi6_addr p = bytes_at 0 16 p"
definition ipi6_ifindex :: "byte list \<Rightarrow> byte list" where
  "ipi6_ifindex p = bytes_at 16 4 p"

text \<open>
  The fields of \<^verbatim>\<open>struct sockaddr_in\<close> and \<^verbatim>\<open>struct sockaddr_in6\<close> that
  \<^verbatim>\<open>print_info\<close> reads through its casts of \<^verbatim>\<open>msg_name\<close>: the port is at offset 2 in
  both, the IPv4 address at offset 4, the IPv6 address at offset 8.
\<close>

definition sin_port :: "byte list \<Rightarrow> byte list" where
  "sin_port a = bytes_at 2 2 a"
definition sin_addr :: "byte list \<Rightarrow> byte list" where
  "sin_addr a = bytes_at 4 4 a"
definition sin6_port :: "byte list \<Rightarrow> byte list" where
  "sin6_port a = bytes_at 2 2 a"
definition sin6_addr :: "byte list \<Rightarrow> byte list" where
  "sin6_addr a = bytes_at 8 16 a"

text \<open>
  One record of the ancillary block, as the loop of \<^verbatim>\<open>pktinfo_get\<close> sees it: the three
  fields of \<^verbatim>\<open>struct cmsghdr\<close> and the bytes that \<^verbatim>\<open>CMSG_DATA\<close> points to.
\<close>

record cmsghdr =
  cmsg_len :: "64 word"
  cmsg_level :: c_int
  cmsg_type :: c_int
  cmsg_data :: "byte list"

text \<open>
  Modelled from the spec: the macros \<^verbatim>\<open>CMSG_FIRSTHDR\<close> and \<^verbatim>\<open>CMSG_NXTHDR\<close> of the
  system headers are not part of the repository. They walk the records of the block
  \<^verbatim>\<open>msg_control[0 .. msg_controllen)\<close> in delivery order, so \<open>msg_control\<close> is the list of
  the records they yield, first to last.

  \<^verbatim>\<open>struct msghdr\<close> with the one \<^verbatim>\<open>struct iovec\<close> that \<^verbatim>\<open>main\<close> hangs on it:
  \<open>msg_name\<close> is the content of \<^verbatim>\<open>rem_addr\<close>, \<open>iov_len\<close> is \<^verbatim>\<open>vec[0].iov_len\<close>; the bytes
  of \<^verbatim>\<open>vec[0].iov_base\<close> are the buffer \<^verbatim>\<open>frame\<close>, which is passed beside the header.
\<close>

record msghdr =
  msg_name :: "byte list"
  msg_namelen :: nat
  iov_len :: nat
  msg_control :: "cmsghdr list"
  msg_controllen :: nat

text \<open>
  What the program does to the outside, in program order: the system calls it makes and
  the lines it writes. The text of a line is kept as the arguments of its format:
  \<^item> \<open>Perror s\<close>: \<^verbatim>\<open>perror(s)\<close>;
  \<^item> \<open>Unknown_ancillary len level type\<close>: the line \<^verbatim>\<open>"Unknown ancillary data, len=%d,
    level=%d, type=%d\n"\<close> on \<^verbatim>\<open>stderr\<close>;
  \<^item> \<open>No_destination\<close>: the line \<^verbatim>\<open>"No destination IP data found (ancillary data)\n"\<close> on
    \<^verbatim>\<open>stderr\<close>;
  \<^item> \<open>Got_contacted to from port\<close>: the three \<^verbatim>\<open>printf\<close> of the line \<^verbatim>\<open>"Got contacted on
    dst addr=%s From src addr=%s port=%d\n"\<close>; an address is the pair of family and bytes
    that \<^verbatim>\<open>inet_ntop\<close> turned into text, and \<open>None\<close> where the buffer or variable printed
    was never written or was written from indeterminate bytes;
  \<^item> \<open>Extra_data addr ifindex\<close>: the lines under \<^verbatim>\<open>" Extra data:\n"\<close>;
  \<^item> \<open>Echo_back n\<close>: the line \<^verbatim>\<open>" Echo back packet, size=%d\n"\<close>;
  \<^item> \<open>Sys_sendmsg payload name control controllen\<close>: the call of \<^verbatim>\<open>sendmsg\<close>, with the
    bytes of the one \<^verbatim>\<open>iovec\<close>, the destination, and the ancillary records and
    \<^verbatim>\<open>msg_controllen\<close> it passes.
\<close>

datatype effect =
    Sys_socket c_int
  | Sys_bind c_int "16 word"
  | Sys_setsockopt c_int c_int
  | Sys_recvmsg
  | Sys_sendmsg "byte list" "byte list" "cmsghdr list" nat
  | Perror string
  | Unknown_ancillary "64 word" c_int c_int
  | No_destination
  | Got_contacted "(c_int \<times> byte list) option" "(c_int \<times> byte list) option" "16 word option"
  | Extra_data "byte list option" "byte list option"
  | Echo_back int

section \<open>The ancillary decoder: \<^verbatim>\<open>pktinfo_get\<close>\<close>

text \<open>
  \<^verbatim>\<open>memcpy(dst, CMSG_DATA(cmsg), n)\<close> into a struct of \<open>n\<close> bytes: the struct becomes the
  first \<open>n\<close> bytes of the record's data. The content of a struct is \<open>None\<close> while it is
  indeterminate: a local that was never written, or a copy that read past the bytes of
  its record.
\<close>

definition memcpy :: "byte list \<Rightarrow> nat \<Rightarrow> byte list option" where
  "memcpy src n = (if n \<le> length src then Some (take n src) else None)"

text \<open>
  The state of the scan: the local \<^verbatim>\<open>res\<close>, the two structs behind the pointers
  \<^verbatim>\<open>pktinfo\<close> and \<^verbatim>\<open>pktinfo6\<close>, and the lines written to \<^verbatim>\<open>stderr\<close> so far.
\<close>

record decoded =
  res :: c_int
  pktinfo :: "byte list option"
  pktinfo6 :: "byte list option"
  diag :: "effect list"

text \<open>The body of the \<^verbatim>\<open>for\<close> loop, for one record.\<close>

definition pktinfo_record :: "cmsghdr \<Rightarrow> decoded \<Rightarrow> decoded" where
  "pktinfo_record get_cmsg s =
     (if cmsg_level get_cmsg = IPPROTO_IP \<and> cmsg_type get_cmsg = IP_PKTINFO then
        s\<lparr>pktinfo := memcpy (cmsg_data get_cmsg) sizeof_in_pktinfo, res := AF_INET\<rparr>
      else if cmsg_level get_cmsg = IPPROTO_IPV6 \<and> cmsg_type get_cmsg = IPV6_PKTINFO then
        s\<lparr>pktinfo6 := memcpy (cmsg_data get_cmsg) sizeof_in6_pktinfo, res := AF_INET6\<rparr>
      else if DEBUG \<noteq> 0 then
        s\<lparr>diag := diag s @
             [Unknown_ancillary (cmsg_len get_cmsg) (cmsg_level get_cmsg) (cmsg_type get_cmsg)]\<rparr>
      else s)"

text \<open>The \<^verbatim>\<open>for\<close> loop, from \<^verbatim>\<open>CMSG_FIRSTHDR\<close> until \<^verbatim>\<open>CMSG_NXTHDR\<close> gives \<^verbatim>\<open>NULL\<close>.\<close>

fun pktinfo_scan :: "cmsghdr list \<Rightarrow> decoded \<Rightarrow> decoded" where
  "pktinfo_scan [] s = s"
| "pktinfo_scan (get_cmsg # rest) s = pktinfo_scan rest (pktinfo_record get_cmsg s)"

text \<open>
  \<^verbatim>\<open>int pktinfo_get(struct msghdr *my_hdr, struct in_pktinfo *pktinfo, struct in6_pktinfo
  *pktinfo6)\<close>: the two structs are passed in with the content they have at the call and
  come back in the result beside the returned \<^verbatim>\<open>res\<close>, which starts as \<open>-1\<close>.
\<close>

definition pktinfo_get :: "msghdr \<Rightarrow> byte list option \<Rightarrow> byte list option \<Rightarrow> decoded" where
  "pktinfo_get my_hdr pktinfo_in pktinfo6_in =
     (let s = \<lparr>res = - 1, pktinfo = pktinfo_in, pktinfo6 = pktinfo6_in, diag = []\<rparr>
      in if 0 < msg_controllen my_hdr then pktinfo_scan (msg_control my_hdr) s else s)"

section \<open>The diagnostic line: \<^verbatim>\<open>print_info\<close>\<close>

text \<open>
  \<^verbatim>\<open>htons(rem_port)\<close> as it is printed: \<^verbatim>\<open>rem_port\<close> was read from the two bytes of
  \<^verbatim>\<open>sin_port\<close>, which hold the port in network order, so the number printed is those two
  bytes read most significant first.
\<close>

definition htons_of :: "byte list \<Rightarrow> 16 word" where
  "htons_of bs = foldl (\<lambda>w b. push_bit 8 w OR ucast b) 0 bs"

text \<open>
  \<^verbatim>\<open>print_info(&msghdr)\<close>, with the global \<^verbatim>\<open>verbose\<close> as a parameter. Its locals
  \<^verbatim>\<open>pktinfo\<close>, \<^verbatim>\<open>pktinfo6\<close>, \<^verbatim>\<open>to_addr\<close>, \<^verbatim>\<open>from_addr\<close> and \<^verbatim>\<open>rem_port\<close> start
  indeterminate (\<open>None\<close>). The family used for both casts and both \<^verbatim>\<open>inet_ntop\<close> calls is
  the one \<^verbatim>\<open>pktinfo_get\<close> returned. \<^verbatim>\<open>inet_ntop\<close> cannot fail for these two families with
  a buffer of \<^verbatim>\<open>INET6_ADDRSTRLEN\<close> bytes, so its \<^verbatim>\<open>perror\<close> branches write nothing.
\<close>

definition print_info :: "msghdr \<Rightarrow> c_int \<Rightarrow> effect list" where
  "print_info my_hdr verbose =
     (let d = pktinfo_get my_hdr None None;
          addr_family = res d;
          rem_addr = msg_name my_hdr;
          (to_addr, from_addr, rem_port, err) =
            (if addr_family = AF_INET then
               (map_option (\<lambda>p. (addr_family, ipi_spec_dst p)) (pktinfo d),
                Some (addr_family, sin_addr rem_addr), Some (sin_port rem_addr), [])
             else if addr_family = AF_INET6 then
               (map_option (\<lambda>p. (addr_family, ipi6_addr p)) (pktinfo6 d),
                Some (addr_family, sin6_addr rem_addr), Some (sin6_port rem_addr), [])
             else (None, None, None, [No_destination]))
      in diag d @ err @ [Got_contacted to_addr from_addr (map_option htons_of rem_port)] @
         (if DEBUG \<noteq> 0 \<and> verbose \<noteq> 0 \<and> addr_family = AF_INET
          then [Extra_data (map_option ipi_addr (pktinfo d)) (map_option ipi_ifindex (pktinfo d))]
          else []))"

section \<open>The service loop of \<^verbatim>\<open>main\<close>\<close>

text \<open>
  Modelled from the spec: \<^verbatim>\<open>recvmsg\<close> is the operating system's, not the repository's.
  Each call either fails (it returns \<open>-1\<close> and leaves the header and the buffers alone) or
  delivers one datagram: the payload is copied to the start of the buffer, cut to the
  buffer's \<open>iov_len\<close>, and the number of bytes copied is returned; the peer's address is
  written to the start of \<^verbatim>\<open>msg_name\<close>, cut to \<open>msg_namelen\<close>; the ancillary records and
  their total length replace \<open>msg_control\<close> and \<open>msg_controllen\<close>.
\<close>

record datagram =
  dg_payload :: "byte list"
  dg_peer :: "byte list"
  dg_control :: "cmsghdr list"
  dg_controllen :: nat

datatype recv_event = Recv_error | Recv_datagram datagram

definition recvmsg :: "recv_event \<Rightarrow> msghdr \<Rightarrow> byte list \<Rightarrow> int \<times> msghdr \<times> byte list" where
  "recvmsg ev h buf =
     (case ev of
        Recv_error \<Rightarrow> (- 1, h, buf)
      | Recv_datagram d \<Rightarrow>
          (let n = min (length (dg_payload d)) (iov_len h);
               a = take (msg_namelen h) (dg_peer d)
           in (int n,
               h\<lparr>msg_name := a @ drop (length a) (msg_name h), msg_namelen := length a,
                 msg_control := dg_control d, msg_controllen := dg_controllen d\<rparr>,
               take n (dg_payload d) @ drop n buf)))"

text \<open>
  Lines 168 to 177: the header is cleared and pointed at \<^verbatim>\<open>cbuf\<close>, \<^verbatim>\<open>frame\<close> and
  \<^verbatim>\<open>rem_addr\<close> with their full sizes, then \<^verbatim>\<open>res = recvmsg(fd, &msghdr, 0)\<close>. The old
  content of \<^verbatim>\<open>cbuf\<close> is never read before the call overwrites it, so the header starts
  with no records.
\<close>

definition receive :: "recv_event \<Rightarrow> byte list \<Rightarrow> byte list \<Rightarrow> int \<times> msghdr \<times> byte list" where
  "receive ev frame rem_addr =
     recvmsg ev
       \<lparr>msg_name = rem_addr, msg_namelen = sizeof_sockaddr_storage, iov_len = sizeof_frame,
        msg_control = [], msg_controllen = sizeof_cbuf\<rparr>
       frame"

text \<open>
  Lines 181 to 191, after a receive that returned \<open>r \<noteq> -1\<close>: the diagnostic lines when
  \<^verbatim>\<open>verbose > 0\<close>, then \<^verbatim>\<open>vec[0].iov_len = res\<close> and \<^verbatim>\<open>sendmsg(fd, &msghdr, 0)\<close>, whose
  return value is not looked at.
\<close>

definition reply :: "c_int \<Rightarrow> int \<Rightarrow> msghdr \<Rightarrow> byte list \<Rightarrow> effect list" where
  "reply verbose r msghdr frame =
     (let logged = (if 0 < sint verbose then print_info msghdr verbose @ [Echo_back r] else []);
          msghdr = msghdr\<lparr>iov_len := nat r\<rparr>
      in logged @
         [Sys_sendmsg (take (iov_len msghdr) frame)
            (take (msg_namelen msghdr) (msg_name msghdr))
            (msg_control msghdr) (msg_controllen msghdr)])"

text \<open>
  How a run ends: \<^verbatim>\<open>main\<close> returns a status, or it stays in a \<^verbatim>\<open>recvmsg\<close> that never
  returns because no further datagram arrives.
\<close>

datatype outcome = Returned c_int | Blocked

text \<open>
  \<^verbatim>\<open>while (1)\<close>, lines 167 to 194, run against the results of the successive \<^verbatim>\<open>recvmsg\<close>
  calls. \<^verbatim>\<open>count\<close> is a C \<^verbatim>\<open>int\<close>: \<^verbatim>\<open>--count\<close> is subtraction on 32-bit words, which
  wraps from the least \<^verbatim>\<open>int\<close> to the greatest. \<^verbatim>\<open>frame\<close> and \<^verbatim>\<open>rem_addr\<close> keep their
  content from one round to the next. Both \<^verbatim>\<open>break\<close>s lead to \<^verbatim>\<open>return 0\<close>.
\<close>

fun service_loop ::
  "c_int \<Rightarrow> recv_event list \<Rightarrow> c_int \<Rightarrow> byte list \<Rightarrow> byte list \<Rightarrow> effect list \<times> outcome" where
  "service_loop verbose [] count frame rem_addr = ([Sys_recvmsg], Blocked)"
| "service_loop verbose (ev # evs) count frame rem_addr =
     (case receive ev frame rem_addr of
        (r, msghdr, frame') \<Rightarrow>
          if r = - 1 then ([Sys_recvmsg], Returned 0)
          else
            (let done = Sys_recvmsg # reply verbose r msghdr frame';
                 count' = count - 1
             in if count' = 0 then (done, Returned 0)
                else (case service_loop verbose evs count' frame' (msg_name msghdr) of
                        (later, out) \<Rightarrow> (done @ later, out))))"

section \<open>\<^verbatim>\<open>main\<close>\<close>

text \<open>
  The locals of \<^verbatim>\<open>main\<close> that the options set, with the global \<^verbatim>\<open>verbose\<close>. The
  command line is the list of what the successive \<^verbatim>\<open>getopt(argc, argv, "c:l:64v:")\<close>
  calls return, each with \<^verbatim>\<open>atoi(optarg)\<close>; \<^verbatim>\<open>listen_port\<close> is a \<^verbatim>\<open>uint16_t\<close>, so the
  assignment keeps the low 16 bits.
\<close>

record options =
  count :: c_int
  listen_port :: "16 word"
  addr_family :: c_int
  verbose :: c_int

definition set_option :: "char \<times> c_int \<Rightarrow> options \<Rightarrow> options" where
  "set_option ca s =
     (let c = fst ca; optarg = snd ca;
          s = (if c = CHR ''c'' then s\<lparr>count := optarg\<rparr> else s);
          s = (if c = CHR ''l'' then s\<lparr>listen_port := ucast optarg\<rparr> else s);
          s = (if c = CHR ''4'' then s\<lparr>addr_family := AF_INET\<rparr> else s);
          s = (if c = CHR ''6'' then s\<lparr>addr_family := AF_INET6\<rparr> else s);
          s = (if c = CHR ''v'' then s\<lparr>verbose := optarg\<rparr> else s)
      in s)"

fun getopt_loop :: "(char \<times> c_int) list \<Rightarrow> options \<Rightarrow> options" where
  "getopt_loop [] s = s"
| "getopt_loop (ca # rest) s = getopt_loop rest (set_option ca s)"

definition initial_options :: options where
  "initial_options = \<lparr>count = 1000000, listen_port = PORT, addr_family = AF_INET6, verbose = 1\<rparr>"

text \<open>
  What the operating system answers during one run: the return values of \<^verbatim>\<open>socket\<close>,
  \<^verbatim>\<open>bind\<close> and the two \<^verbatim>\<open>setsockopt\<close> calls, the results of the successive \<^verbatim>\<open>recvmsg\<close>
  calls, and the bytes that \<^verbatim>\<open>frame\<close> and \<^verbatim>\<open>rem_addr\<close> hold before their first write.
\<close>

record world =
  socket_ret :: c_int
  bind_ret :: c_int
  setsockopt_ip_ret :: c_int
  setsockopt_ipv6_ret :: c_int
  incoming :: "recv_event list"
  frame0 :: "byte list"
  rem_addr0 :: "byte list"

text \<open>
  \<^verbatim>\<open>main\<close>. \<open>Sys_bind\<close> records the family and the port number stored (in network order)
  in the address. Only the return value of \<^verbatim>\<open>bind\<close> is tested; those of \<^verbatim>\<open>socket\<close> and of
  both \<^verbatim>\<open>setsockopt\<close> calls are dropped.
\<close>

definition main :: "(char \<times> c_int) list \<Rightarrow> world \<Rightarrow> effect list \<times> outcome" where
  "main argv w =
     (let s = getopt_loop argv initial_options;
          started = [Sys_socket (addr_family s), Sys_bind (addr_family s) (listen_port s)]
      in if bind_ret w = - 1 then (started @ [Perror ''bind''], Returned 1)
         else (case service_loop (verbose s) (incoming w) (count s) (frame0 w) (rem_addr0 w) of
                 (served, out) \<Rightarrow>
                   (started @
                    [Sys_setsockopt SOL_IP IP_PKTINFO,
                     Sys_setsockopt IPPROTO_IPV6 IPV6_RECVPKTINFO] @ served,
                    out)))"

section \<open>Reading a run\<close>

text \<open>The payloads of the replies of a run: those of its \<^verbatim>\<open>sendmsg\<close> calls, in order.\<close>

fun replies :: "effect list \<Rightarrow> byte list list" where
  "replies [] = []"
| "replies (Sys_sendmsg payload name control controllen # es) = payload # replies es"
| "replies (e # es) = replies es"

text \<open>The lines a run writes to \<^verbatim>\<open>stderr\<close>.\<close>

fun is_diagnostic :: "effect \<Rightarrow> bool" where
  "is_diagnostic (Perror s) = True"
| "is_diagnostic (Unknown_ancillary l lv ty) = True"
| "is_diagnostic No_destination = True"
| "is_diagnostic e = False"

definition diagnostics :: "effect list \<Rightarrow> effect list" where
  "diagnostics es = filter is_diagnostic es"

text \<open>The datagrams that the successive receives deliver before the first failure.\<close>

fun delivered :: "recv_event list \<Rightarrow> datagram list" where
  "delivered [] = []"
| "delivered (Recv_error # evs) = []"
| "delivered (Recv_datagram d # evs) = d # delivered evs"

text \<open>
  How often \<^verbatim>\<open>--count\<close> runs until it gives 0, from a start value: the value itself
  read as unsigned, and \<open>2 ^ 32\<close> from 0.
\<close>

definition rounds :: "c_int \<Rightarrow> nat" where
  "rounds c = (if c = 0 then 2 ^ 32 else unat c)"

text \<open>The two kinds of destination-info record, and the line written for any other record.\<close>

definition is_pktinfo4 :: "cmsghdr \<Rightarrow> bool" where
  "is_pktinfo4 c \<longleftrightarrow> cmsg_level c = IPPROTO_IP \<and> cmsg_type c = IP_PKTINFO"

definition is_pktinfo6 :: "cmsghdr \<Rightarrow> bool" where
  "is_pktinfo6 c \<longleftrightarrow> cmsg_level c = IPPROTO_IPV6 \<and> cmsg_type c = IPV6_PKTINFO"

definition recognised :: "cmsghdr \<Rightarrow> bool" where
  "recognised c \<longleftrightarrow> is_pktinfo4 c \<or> is_pktinfo6 c"

definition unknown_line :: "cmsghdr \<Rightarrow> effect" where
  "unknown_line c = Unknown_ancillary (cmsg_len c) (cmsg_level c) (cmsg_type c)"

definition family_of :: "cmsghdr \<Rightarrow> c_int" where
  "family_of c = (if is_pktinfo4 c then AF_INET else AF_INET6)"

section \<open>Sample inputs\<close>

text \<open>
  An IPv4 destination-info record as the kernel delivers it: \<^verbatim>\<open>cmsg_len = CMSG_LEN(12)\<close>,
  interface index 2, and the given address in both address fields. An IPv6 one:
  \<^verbatim>\<open>cmsg_len = CMSG_LEN(20)\<close>, the address, interface index 2. A record of another kind:
  a \<^verbatim>\<open>SOL_SOCKET\<close> timestamp.
\<close>

definition sample_pktinfo4 :: "byte list \<Rightarrow> cmsghdr" where
  "sample_pktinfo4 a =
     \<lparr>cmsg_len = 28, cmsg_level = IPPROTO_IP, cmsg_type = IP_PKTINFO,
      cmsg_data = [2, 0, 0, 0] @ a @ a\<rparr>"

definition sample_pktinfo6 :: "byte list \<Rightarrow> cmsghdr" where
  "sample_pktinfo6 a =
     \<lparr>cmsg_len = 36, cmsg_level = IPPROTO_IPV6, cmsg_type = IPV6_PKTINFO,
      cmsg_data = a @ [2, 0, 0, 0]\<rparr>"

definition sample_timestamp :: cmsghdr where
  "sample_timestamp =
     \<lparr>cmsg_len = 32, cmsg_level = 1, cmsg_type = 29, cmsg_data = replicate 16 0\<rparr>"

text \<open>A header as a receive leaves it, with the given records.\<close>

definition sample_hdr :: "cmsghdr list \<Rightarrow> msghdr" where
  "sample_hdr cs =
     \<lparr>msg_name = replicate 128 0, msg_namelen = 28, iov_len = 8192,
      msg_control = cs, msg_controllen = 40 * length cs\<rparr>"

text \<open>A datagram from \<^verbatim>\<open>[::1]:5000\<close> with the given payload and records.\<close>

definition sample_datagram :: "byte list \<Rightarrow> cmsghdr list \<Rightarrow> datagram" where
  "sample_datagram p cs =
     \<lparr>dg_payload = p,
      dg_peer = [10, 0, 19, 136, 0, 0, 0, 0] @ replicate 15 0 @ [1] @ [0, 0, 0, 0],
      dg_control = cs, dg_controllen = 40 * length cs\<rparr>"

text \<open>
  An IPv4 datagram from \<^verbatim>\<open>10.0.0.7:5000\<close> to \<^verbatim>\<open>10.0.0.5\<close> as an IPv6 socket
  with both options set receives it: the peer is the IPv4-mapped address in a
  \<^verbatim>\<open>sockaddr_in6\<close>, and the block holds an IPv6 record with the mapped destination
  followed by an IPv4 record.
\<close>

definition sample_mapped_datagram :: "byte list \<Rightarrow> datagram" where
  "sample_mapped_datagram p =
     \<lparr>dg_payload = p,
      dg_peer = [10, 0, 19, 136, 0, 0, 0, 0] @ replicate 10 0 @ [255, 255, 10, 0, 0, 7] @
                [0, 0, 0, 0],
      dg_control = [sample_pktinfo6 (replicate 10 0 @ [255, 255, 10, 0, 0, 5]),
                    sample_pktinfo4 [10, 0, 0, 5]],
      dg_controllen = 80\<rparr>"

text \<open>
  A run in which every call but \<^verbatim>\<open>bind\<close> and the receives succeeds: \<^verbatim>\<open>bind\<close> returns
  the given value, the receives give the given results.
\<close>

definition sample_world :: "c_int \<Rightarrow> recv_event list \<Rightarrow> world" where
  "sample_world b evs =
     \<lparr>socket_ret = 3, bind_ret = b, setsockopt_ip_ret = 0, setsockopt_ipv6_ret = 0,
      incoming = evs, frame0 = replicate 8192 0, rem_addr0 = replicate 128 0\<rparr>"

section \<open>Lemmas\<close>

subsection \<open>The counter\<close>

lemma rounds_pos: "0 < rounds c"
  by (simp add: rounds_def unat_gt_0)

lemma rounds_one: "rounds c = Suc 0 \<longleftrightarrow> c = 1"
proof
  assume "rounds c = Suc 0"
  then have "unat c = unat (1 :: c_int)"
    by (simp add: rounds_def split: if_splits)
  then show "c = 1"
    by (simp only: word_eq_iff_unsigned [where ?'a = nat])
next
  assume "c = 1"
  then show "rounds c = Suc 0" by (simp add: rounds_def)
qed

lemma unat_minus_one_c_int: "unat (- 1 :: c_int) = 4294967295"
  by (simp add: unsigned_minus_1_eq_mask mask_eq_exp_minus_1)

lemma rounds_dec: "c \<noteq> 1 \<Longrightarrow> rounds (c - 1) = rounds c - 1"
proof (cases "c = 0")
  case True
  then show ?thesis by (simp add: rounds_def unat_minus_one_c_int)
next
  case False
  assume "c \<noteq> 1"
  with False have "c - 1 \<noteq> 0" by simp
  with False show ?thesis by (simp add: rounds_def unat_minus_one)
qed

lemma uint_c_int: "uint (c :: c_int) = sint c mod 2 ^ 32"
  using uint_sint [of c] by (simp add: take_bit_eq_mod)

lemma sint_c_int_bounds: "- (2 ^ 31) \<le> sint (c :: c_int)" "sint (c :: c_int) < 2 ^ 31"
  using sint_ge [of c] sint_lt [of c] by simp_all

lemma rounds_positive: "0 < sint c \<Longrightarrow> rounds c = nat (sint c)"
proof -
  assume pos: "0 < sint c"
  then have "c \<noteq> 0" by auto
  moreover have "uint c = sint c"
    using pos sint_c_int_bounds(2) [of c] by (simp add: uint_c_int)
  ultimately show ?thesis by (simp add: rounds_def unat_eq_nat_uint)
qed

lemma rounds_nonpositive: "sint c \<le> 0 \<Longrightarrow> rounds c = nat (2 ^ 32 + sint c)"
proof (cases "c = 0")
  case True
  then show ?thesis by (simp add: rounds_def)
next
  case False
  assume "sint c \<le> 0"
  moreover from False have "sint c \<noteq> 0"
    by (metis sint_0 signed_word_eqI)
  ultimately have neg: "sint c < 0" by simp
  have "sint c mod 2 ^ 32 = (sint c + 2 ^ 32) mod 2 ^ 32" by simp
  also have "\<dots> = sint c + 2 ^ 32"
    using neg sint_c_int_bounds(1) [of c] by (intro mod_pos_pos_trivial) simp_all
  finally have "uint c = 2 ^ 32 + sint c" by (simp add: uint_c_int)
  with False show ?thesis by (simp add: rounds_def unat_eq_nat_uint)
qed

subsection \<open>The decoder\<close>

lemma pktinfo_scan_append: "pktinfo_scan (xs @ ys) s = pktinfo_scan ys (pktinfo_scan xs s)"
  by (induction xs arbitrary: s) auto

lemma DEBUG_on: "DEBUG \<noteq> 0"
  by (simp add: DEBUG_def)

lemma not_both: "is_pktinfo4 c \<Longrightarrow> \<not> is_pktinfo6 c"
  by (simp add: is_pktinfo4_def is_pktinfo6_def IPPROTO_IP_def IPPROTO_IPV6_def)

lemma pktinfo_record_cases:
  "pktinfo_record c s =
     (if is_pktinfo4 c then s\<lparr>pktinfo := memcpy (cmsg_data c) sizeof_in_pktinfo, res := AF_INET\<rparr>
      else if is_pktinfo6 c then s\<lparr>pktinfo6 := memcpy (cmsg_data c) sizeof_in6_pktinfo, res := AF_INET6\<rparr>
      else s\<lparr>diag := diag s @ [unknown_line c]\<rparr>)"
  by (auto simp: pktinfo_record_def is_pktinfo4_def is_pktinfo6_def unknown_line_def DEBUG_on)

lemma diag_scan:
  "diag (pktinfo_scan cs s) = diag s @ map unknown_line (filter (\<lambda>c. \<not> recognised c) cs)"
  by (induction cs arbitrary: s) (simp_all add: pktinfo_record_cases recognised_def)

lemma res_scan:
  "res (pktinfo_scan cs s) =
     (if filter recognised cs = [] then res s else family_of (last (filter recognised cs)))"
  by (induction cs arbitrary: s)
     (simp_all add: pktinfo_record_cases recognised_def family_of_def not_both)

lemma pktinfo_scan4:
  "pktinfo (pktinfo_scan cs s) =
     (if filter is_pktinfo4 cs = [] then pktinfo s
      else memcpy (cmsg_data (last (filter is_pktinfo4 cs))) sizeof_in_pktinfo)"
  by (induction cs arbitrary: s) (simp_all add: pktinfo_record_cases)

lemma pktinfo_scan6:
  "pktinfo6 (pktinfo_scan cs s) =
     (if filter is_pktinfo6 cs = [] then pktinfo6 s
      else memcpy (cmsg_data (last (filter is_pktinfo6 cs))) sizeof_in6_pktinfo)"
  by (induction cs arbitrary: s) (simp_all add: pktinfo_record_cases not_both)


lemma diag_pktinfo_get:
  "diag (pktinfo_get h p p6) =
     (if 0 < msg_controllen h then map unknown_line (filter (\<lambda>c. \<not> recognised c) (msg_control h))
      else [])"
  by (simp add: pktinfo_get_def Let_def diag_scan)

lemma res_pktinfo_get:
  "res (pktinfo_get h p p6) =
     (if 0 < msg_controllen h \<and> filter recognised (msg_control h) \<noteq> []
      then family_of (last (filter recognised (msg_control h))) else - 1)"
  by (simp add: pktinfo_get_def Let_def res_scan)

subsection \<open>Replies\<close>

lemma replies_append: "replies (xs @ ys) = replies xs @ replies ys"
  by (induction xs rule: replies.induct) simp_all

lemma replies_unknown: "replies (map unknown_line cs) = []"
  by (induction cs) (simp_all add: unknown_line_def)

lemma replies_print_info: "replies (print_info h v) = []"
  by (simp add: print_info_def Let_def replies_append diag_pktinfo_get replies_unknown
           split: prod.splits)

lemma replies_reply: "replies (reply v r h frame) = [take (nat r) frame]"
  by (simp add: reply_def Let_def replies_append replies_print_info)

lemma receive_error: "receive Recv_error frame rem = (r, h, frame') \<Longrightarrow> r = - 1"
  by (simp add: receive_def recvmsg_def)

lemma receive_datagram:
  "receive (Recv_datagram d) frame rem = (r, h, frame') \<Longrightarrow>
     r = int (min (length (dg_payload d)) sizeof_frame) \<and>
     frame' = take (nat r) (dg_payload d) @ drop (nat r) frame \<and>
     msg_control h = dg_control d \<and> msg_controllen h = dg_controllen d \<and>
     msg_name h = take sizeof_sockaddr_storage (dg_peer d) @
                  drop (length (take sizeof_sockaddr_storage (dg_peer d))) rem"
  by (auto simp: receive_def recvmsg_def Let_def)

lemma service_loop_error:
  "service_loop v (Recv_error # evs) c frame rem = ([Sys_recvmsg], Returned 0)"
  by (simp add: receive_def recvmsg_def)

lemma service_loop_datagram:
  assumes "receive (Recv_datagram d) frame rem = (r, h, frame')"
  shows "service_loop v (Recv_datagram d # evs) c frame rem =
           (if c = 1 then (Sys_recvmsg # reply v r h frame', Returned 0)
            else (Sys_recvmsg # reply v r h frame' @
                    fst (service_loop v evs (c - 1) frame' (msg_name h)),
                  snd (service_loop v evs (c - 1) frame' (msg_name h))))"
proof -
  from receive_datagram [OF assms] have "r \<noteq> - 1" by auto
  with assms show ?thesis
    by (simp add: Let_def split: prod.splits)
qed

lemma loop_replies:
  "replies (fst (service_loop v evs c frame rem)) =
     map (\<lambda>d. take sizeof_frame (dg_payload d)) (take (rounds c) (delivered evs))"
proof (induction evs arbitrary: c frame rem)
  case Nil
  show ?case by simp
next
  case (Cons ev evs)
  show ?case
  proof (cases ev)
    case Recv_error
    then show ?thesis by (simp only: service_loop_error) simp
  next
    case (Recv_datagram d)
    obtain r h frame' where rcv: "receive (Recv_datagram d) frame rem = (r, h, frame')"
      by (cases "receive (Recv_datagram d) frame rem") auto
    have sent: "take (nat r) frame' = take sizeof_frame (dg_payload d)"
      using receive_datagram [OF rcv] by (simp add: min_def)
    obtain k where k: "rounds c = Suc k"
      using rounds_pos [of c] by (cases "rounds c") auto
    show ?thesis
    proof (cases "c = 1")
      case True
      with k have "k = 0" using rounds_one [of c] by simp
      with True k Recv_datagram sent show ?thesis
        by (simp add: service_loop_datagram [OF rcv] replies_reply del: service_loop.simps)
    next
      case False
      with k have "rounds (c - 1) = k" by (simp add: rounds_dec)
      with False Recv_datagram sent k Cons.IH [of "c - 1" frame' "msg_name h"]
      show ?thesis
        by (simp add: service_loop_datagram [OF rcv] replies_append replies_reply
                 del: service_loop.simps)
    qed
  qed
qed

lemma loop_outcome:
  "snd (service_loop v evs c frame rem) =
     (if length (delivered evs) < rounds c \<and> length (delivered evs) = length evs
      then Blocked else Returned 0)"
proof (induction evs arbitrary: c frame rem)
  case Nil
  show ?case by (simp add: rounds_pos)
next
  case (Cons ev evs)
  show ?case
  proof (cases ev)
    case Recv_error
    then show ?thesis by (simp only: service_loop_error) simp
  next
    case (Recv_datagram d)
    obtain r h frame' where rcv: "receive (Recv_datagram d) frame rem = (r, h, frame')"
      by (cases "receive (Recv_datagram d) frame rem") auto
    obtain k where k: "rounds c = Suc k"
      using rounds_pos [of c] by (cases "rounds c") auto
    show ?thesis
    proof (cases "c = 1")
      case True
      with k have "k = 0" using rounds_one [of c] by simp
      with True k Recv_datagram show ?thesis
        by (simp add: service_loop_datagram [OF rcv] del: service_loop.simps)
    next
      case False
      with k have "rounds (c - 1) = k" by (simp add: rounds_dec)
      with False Recv_datagram k Cons.IH [of "c - 1" frame' "msg_name h"]
      show ?thesis
        by (simp add: service_loop_datagram [OF rcv] del: service_loop.simps)
    qed
  qed
qed

subsection \<open>Runs of \<^verbatim>\<open>main\<close>\<close>

lemma delivered_all: "Recv_error \<notin> set evs \<Longrightarrow> length (delivered evs) = length evs"
  by (induction evs rule: delivered.induct) simp_all

lemma delivered_replicate: "delivered (replicate n (Recv_datagram d)) = replicate n d"
  by (induction n) simp_all

lemma length_delivered_le: "length (delivered evs) \<le> length evs"
  by (induction evs rule: delivered.induct) simp_all

lemma getopt_loop_count:
  "\<forall>ca \<in> set argv. fst ca \<noteq> CHR ''c'' \<Longrightarrow> count (getopt_loop argv s) = count s"
  by (induction argv arbitrary: s) (simp_all add: set_option_def Let_def)

lemma service_loop_starts:
  "\<exists>es. fst (service_loop v evs c frame rem) = Sys_recvmsg # es"
proof (cases evs)
  case Nil
  then show ?thesis by simp
next
  case (Cons ev evs')
  show ?thesis
  proof (cases ev)
    case Recv_error
    with Cons show ?thesis by (simp only: service_loop_error) simp
  next
    case (Recv_datagram d)
    obtain r h frame' where rcv: "receive (Recv_datagram d) frame rem = (r, h, frame')"
      by (cases "receive (Recv_datagram d) frame rem") auto
    from Cons Recv_datagram show ?thesis
      by (simp add: service_loop_datagram [OF rcv] del: service_loop.simps)
  qed
qed

lemma getopt_loop_append:
  "getopt_loop (xs @ ys) s = getopt_loop ys (getopt_loop xs s)"
  by (induction xs arbitrary: s) simp_all

lemma main_bind_failed:
  "bind_ret w = - 1 \<Longrightarrow>
     main argv w =
       ([Sys_socket (addr_family (getopt_loop argv initial_options)),
         Sys_bind (addr_family (getopt_loop argv initial_options))
           (listen_port (getopt_loop argv initial_options)),
         Perror ''bind''], Returned 1)"
  by (simp add: main_def Let_def)

lemma main_bound:
  "bind_ret w \<noteq> - 1 \<Longrightarrow>
     main argv w =
       ([Sys_socket (addr_family (getopt_loop argv initial_options)),
         Sys_bind (addr_family (getopt_loop argv initial_options))
           (listen_port (getopt_loop argv initial_options)),
         Sys_setsockopt SOL_IP IP_PKTINFO, Sys_setsockopt IPPROTO_IPV6 IPV6_RECVPKTINFO] @
        fst (service_loop (verbose (getopt_loop argv initial_options)) (incoming w)
               (count (getopt_loop argv initial_options)) (frame0 w) (rem_addr0 w)),
        snd (service_loop (verbose (getopt_loop argv initial_options)) (incoming w)
               (count (getopt_loop argv initial_options)) (frame0 w) (rem_addr0 w)))"
  by (simp add: main_def Let_def split: prod.splits)

lemma main_replies:
  "bind_ret w \<noteq> - 1 \<Longrightarrow>
     replies (fst (main argv w)) =
       map (\<lambda>d. take sizeof_frame (dg_payload d))
         (take (rounds (count (getopt_loop argv initial_options))) (delivered (incoming w)))"
  by (simp add: main_bound loop_replies)

lemma main_outcome:
  "bind_ret w \<noteq> - 1 \<Longrightarrow>
     snd (main argv w) =
       (if length (delivered (incoming w)) < rounds (count (getopt_loop argv initial_options)) \<and>
           length (delivered (incoming w)) = length (incoming w)
        then Blocked else Returned 0)"
  by (simp add: main_bound loop_outcome)

section \<open>The claims about the decoder\<close>

text \<open>
  Claim C2. In a block with two or more destination-info records of one address family,
  the struct of that family comes back holding the last such record in delivery order:
  a later record overwrites an earlier one of its family. The family returned is that of
  the last destination-info record of the block. So for a block of two IPv4 records with
  different addresses, the decoder returns \<open>AF_INET\<close> and the second record's address,
  as the witness computes.
\<close>

theorem pktinfo_get_last_wins:
  assumes "0 < msg_controllen h"
  shows "(2 \<le> length (filter is_pktinfo4 (msg_control h)) \<longrightarrow>
            pktinfo (pktinfo_get h p p6) =
              memcpy (cmsg_data (last (filter is_pktinfo4 (msg_control h)))) sizeof_in_pktinfo) \<and>
         (2 \<le> length (filter is_pktinfo6 (msg_control h)) \<longrightarrow>
            pktinfo6 (pktinfo_get h p p6) =
              memcpy (cmsg_data (last (filter is_pktinfo6 (msg_control h)))) sizeof_in6_pktinfo) \<and>
         (filter recognised (msg_control h) \<noteq> [] \<longrightarrow>
            res (pktinfo_get h p p6) = family_of (last (filter recognised (msg_control h))))"
proof -
  have four: "pktinfo (pktinfo_get h p p6) =
      memcpy (cmsg_data (last (filter is_pktinfo4 (msg_control h)))) sizeof_in_pktinfo"
    if "filter is_pktinfo4 (msg_control h) \<noteq> []"
    using assms that by (simp add: pktinfo_get_def Let_def pktinfo_scan4)
  have six: "pktinfo6 (pktinfo_get h p p6) =
      memcpy (cmsg_data (last (filter is_pktinfo6 (msg_control h)))) sizeof_in6_pktinfo"
    if "filter is_pktinfo6 (msg_control h) \<noteq> []"
    using assms that by (simp add: pktinfo_get_def Let_def pktinfo_scan6)
  have fam: "res (pktinfo_get h p p6) = family_of (last (filter recognised (msg_control h)))"
    if "filter recognised (msg_control h) \<noteq> []"
    using assms that by (simp add: res_pktinfo_get)
  from four six fam show ?thesis
    by (metis length_0_conv not_numeral_le_zero)
qed

theorem pktinfo_get_last_wins_witness:
  "res (pktinfo_get (sample_hdr [sample_pktinfo4 [10, 0, 0, 5], sample_pktinfo4 [10, 0, 0, 9]])
          None None) = AF_INET \<and>
   map_option ipi_spec_dst
     (pktinfo (pktinfo_get (sample_hdr [sample_pktinfo4 [10, 0, 0, 5], sample_pktinfo4 [10, 0, 0, 9]])
          None None)) = Some [10, 0, 0, 9] \<and>
   res (pktinfo_get (sample_hdr [sample_pktinfo6 (replicate 15 0 @ [1]),
          sample_pktinfo6 (replicate 15 0 @ [2])]) None None) = AF_INET6 \<and>
   map_option ipi6_addr
     (pktinfo6 (pktinfo_get (sample_hdr [sample_pktinfo6 (replicate 15 0 @ [1]),
          sample_pktinfo6 (replicate 15 0 @ [2])]) None None)) = Some (replicate 15 0 @ [2])"
  using pktinfo_get_last_wins
          [of "sample_hdr [sample_pktinfo4 [10, 0, 0, 5], sample_pktinfo4 [10, 0, 0, 9]]" None None]
        pktinfo_get_last_wins
          [of "sample_hdr [sample_pktinfo6 (replicate 15 0 @ [1]),
                           sample_pktinfo6 (replicate 15 0 @ [2])]" None None]
  by (simp add: sample_hdr_def sample_pktinfo4_def sample_pktinfo6_def is_pktinfo4_def
        is_pktinfo6_def recognised_def family_of_def IPPROTO_IP_def IPPROTO_IPV6_def
        IP_PKTINFO_def IPV6_PKTINFO_def memcpy_def sizeof_in_pktinfo_def sizeof_in6_pktinfo_def
        ipi_spec_dst_def ipi6_addr_def bytes_at_def)

text \<open>
  Claim C3. The decoder has no failing path: for every block it returns one value, which
  is \<open>-1\<close> (absent), \<open>AF_INET\<close> or \<open>AF_INET6\<close>. A record that is not a destination-info
  record is skipped, the scan goes on, and one line is written for it: the result is that
  of the block without such records, and the lines are those of the skipped records in
  order. A block with no destination-info record gives \<open>-1\<close> and leaves both structs as
  they were.
\<close>

theorem pktinfo_get_unknown_tolerated:
  "res (pktinfo_get h p p6) \<in> {- 1, AF_INET, AF_INET6} \<and>
   (0 < msg_controllen h \<longrightarrow>
      pktinfo_get h p p6 =
        (pktinfo_get (h\<lparr>msg_control := filter recognised (msg_control h)\<rparr>) p p6)
          \<lparr>diag := map unknown_line (filter (\<lambda>c. \<not> recognised c) (msg_control h))\<rparr>) \<and>
   ((\<forall>c \<in> set (msg_control h). \<not> recognised c) \<longrightarrow>
      res (pktinfo_get h p p6) = - 1 \<and> pktinfo (pktinfo_get h p p6) = p \<and>
      pktinfo6 (pktinfo_get h p p6) = p6)"
proof -
  have one: "res (pktinfo_get h p p6) \<in> {- 1, AF_INET, AF_INET6}"
    by (simp add: res_pktinfo_get family_of_def)
  have f4: "filter (\<lambda>x. recognised x \<and> is_pktinfo4 x) cs = filter is_pktinfo4 cs" for cs
    by (induction cs) (simp_all add: recognised_def)
  have f6: "filter (\<lambda>x. recognised x \<and> is_pktinfo6 x) cs = filter is_pktinfo6 cs" for cs
    by (induction cs) (simp_all add: recognised_def)
  have skip: "pktinfo_scan cs s =
      (pktinfo_scan (filter recognised cs) s)
        \<lparr>diag := diag s @ map unknown_line (filter (\<lambda>c. \<not> recognised c) cs)\<rparr>" for cs s
    by (rule decoded.equality)
       (simp_all add: res_scan pktinfo_scan4 pktinfo_scan6 diag_scan f4 f6)
  have two: "pktinfo_get h p p6 =
        (pktinfo_get (h\<lparr>msg_control := filter recognised (msg_control h)\<rparr>) p p6)
          \<lparr>diag := map unknown_line (filter (\<lambda>c. \<not> recognised c) (msg_control h))\<rparr>"
    if "0 < msg_controllen h"
    using that skip [of "msg_control h"] by (simp add: pktinfo_get_def Let_def)
  have none: "filter recognised (msg_control h) = []" "filter is_pktinfo4 (msg_control h) = []"
      "filter is_pktinfo6 (msg_control h) = []"
    if "\<forall>c \<in> set (msg_control h). \<not> recognised c"
    using that by (auto simp: recognised_def filter_empty_conv)
  have three: "res (pktinfo_get h p p6) = - 1 \<and> pktinfo (pktinfo_get h p p6) = p \<and>
      pktinfo6 (pktinfo_get h p p6) = p6"
    if "\<forall>c \<in> set (msg_control h). \<not> recognised c"
    using none [OF that]
    by (simp add: res_pktinfo_get) (simp add: pktinfo_get_def Let_def pktinfo_scan4 pktinfo_scan6)
  from one two three show ?thesis by blast
qed

theorem pktinfo_get_unknown_tolerated_witness:
  "pktinfo_get (sample_hdr [sample_timestamp]) None None =
     \<lparr>res = - 1, pktinfo = None, pktinfo6 = None, diag = [Unknown_ancillary 32 1 29]\<rparr>"
  using pktinfo_get_unknown_tolerated [of "sample_hdr [sample_timestamp]" None None]
  by (simp add: sample_hdr_def sample_timestamp_def recognised_def is_pktinfo4_def
        is_pktinfo6_def IPPROTO_IP_def IPPROTO_IPV6_def unknown_line_def pktinfo_get_def)

section \<open>The claims about the service loop\<close>

text \<open>
  Claim C1. When every datagram received has a payload of at most the capacity of the
  receive buffer (0 to 8192 bytes), the payloads of the replies are, one for one and in
  order, the payloads received: each reply has the bytes of its datagram and so its
  length, not the 8192 bytes of the buffer. The loop replies to the datagrams received
  before the first failing receive, up to the number the counter allows.
\<close>

theorem echo_fidelity:
  assumes "\<forall>d \<in> set (delivered evs). length (dg_payload d) \<le> sizeof_frame"
  shows "replies (fst (service_loop v evs c frame rem)) =
           map dg_payload (take (rounds c) (delivered evs))"
proof -
  have "take sizeof_frame (dg_payload d) = dg_payload d"
    if "d \<in> set (take (rounds c) (delivered evs))" for d
    using assms that by (auto dest: in_set_takeD)
  then show ?thesis
    by (simp add: loop_replies)
qed

theorem echo_fidelity_witness:
  "replies (fst (service_loop 1
      [Recv_datagram (sample_datagram [104, 105] []), Recv_datagram (sample_datagram [] []), Recv_datagram (sample_datagram (replicate 8192 7) [])]
      1000000 (replicate 8192 0) (replicate 128 0))) = [[104, 105], [], replicate 8192 7]"
  using echo_fidelity [where evs =
      "[Recv_datagram (sample_datagram [104, 105] []), Recv_datagram (sample_datagram [] []), Recv_datagram (sample_datagram (replicate 8192 7) [])]"
      and c = 1000000 and v = 1 and frame = "replicate 8192 0" and rem = "replicate 128 0"]
  by (simp add: sample_datagram_def sizeof_frame_def rounds_def del: service_loop.simps)

text \<open>
  Claim C4. A datagram with an empty payload makes the receive return 0, which is not
  the failure value \<open>-1\<close>: the loop sends an empty reply for it, and then goes on as after
  any other reply, to the next receive unless the counter has just reached zero.
\<close>

theorem zero_length_echoed:
  assumes "dg_payload d = []"
  shows "fst (receive (Recv_datagram d) frame rem) = 0 \<and>
         replies (fst (service_loop v (Recv_datagram d # evs) c frame rem)) =
           [] # (if c = 1 then []
                 else replies (fst (service_loop v evs (c - 1) frame
                        (msg_name (fst (snd (receive (Recv_datagram d) frame rem))))))) \<and>
         snd (service_loop v (Recv_datagram d # evs) c frame rem) =
           (if c = 1 then Returned 0
            else snd (service_loop v evs (c - 1) frame
                   (msg_name (fst (snd (receive (Recv_datagram d) frame rem))))))"
proof -
  obtain r h frame' where rcv: "receive (Recv_datagram d) frame rem = (r, h, frame')"
    by (cases "receive (Recv_datagram d) frame rem") auto
  from receive_datagram [OF rcv] assms have r: "r = 0" and f: "frame' = frame"
    by simp_all
  from rcv r f show ?thesis
    by (simp add: service_loop_datagram [OF rcv] replies_append replies_reply
             del: service_loop.simps)
qed

theorem zero_length_echoed_witness:
  "replies (fst (service_loop 1 [Recv_datagram (sample_datagram [] []), Recv_datagram (sample_datagram [104, 105] [])]
      1000000 (replicate 8192 0) (replicate 128 0))) = [[], [104, 105]] \<and>
   snd (service_loop 1 [Recv_datagram (sample_datagram [] []), Recv_datagram (sample_datagram [104, 105] [])]
      1000000 (replicate 8192 0) (replicate 128 0)) = Blocked"
  using zero_length_echoed [where d = "sample_datagram [] []" and frame = "replicate 8192 0" and rem = "replicate 128 0"
      and v = 1 and evs = "[Recv_datagram (sample_datagram [104, 105] [])]" and c = 1000000]
  by (simp add: sample_datagram_def rounds_def loop_replies loop_outcome sizeof_frame_def
           del: service_loop.simps)

text \<open>
  Claim C5. With a positive count \<open>N\<close> configured and at least \<open>N\<close> receives succeeding
  in a row, \<^verbatim>\<open>main\<close> sends exactly \<open>N\<close> replies and returns 0, whatever arrives after the
  \<open>N\<close>-th datagram.
\<close>

theorem count_bounded_termination:
  assumes "count (getopt_loop argv initial_options) = N" and "0 < sint N"
      and "bind_ret w \<noteq> - 1"
      and "nat (sint N) \<le> length (delivered (incoming w))"
  shows "snd (main argv w) = Returned 0 \<and> length (replies (fst (main argv w))) = nat (sint N)"
  using assms by (simp add: main_outcome main_replies rounds_positive)

theorem count_bounded_termination_witness:
  "snd (main [(CHR ''c'', 3)]
      (sample_world 0 (replicate 5 (Recv_datagram (sample_datagram [104, 105] []))))) = Returned 0 \<and>
   length (replies (fst (main [(CHR ''c'', 3)]
      (sample_world 0 (replicate 5 (Recv_datagram (sample_datagram [104, 105] []))))))) = 3"
  using count_bounded_termination [where argv = "[(CHR ''c'', 3)]" and N = 3
      and w = "sample_world 0 (replicate 5 (Recv_datagram (sample_datagram [104, 105] [])))"]
  by (simp add: sample_world_def set_option_def initial_options_def delivered_replicate)

text \<open>
  Claim C6, as the program has it. Without a count option the counter starts at
  1000000, so the reply count is bounded: in the sample run below two million datagrams
  arrive, no receive fails, and \<^verbatim>\<open>main\<close> returns 0 after exactly one million replies.
\<close>

theorem default_count_exhausted:
  "Recv_error \<notin> set (incoming (sample_world 0
       (replicate 2000000 (Recv_datagram (sample_datagram [104, 105] []))))) \<and>
   snd (main [] (sample_world 0
       (replicate 2000000 (Recv_datagram (sample_datagram [104, 105] []))))) = Returned 0 \<and>
   length (replies (fst (main [] (sample_world 0
       (replicate 2000000 (Recv_datagram (sample_datagram [104, 105] []))))))) = 1000000"
  by (simp add: main_outcome main_replies sample_world_def initial_options_def rounds_def
        delivered_replicate)

text \<open>
  Claim C6, amended. When no count option is given, bind succeeds and no receive
  fails, \<^verbatim>\<open>main\<close> replies to every datagram up to the millionth: with fewer than
  1000000 datagrams it has replied to all of them and waits in the next receive; from
  1000000 datagrams on it has sent exactly 1000000 replies and returned 0.
\<close>

theorem default_count:
  assumes "\<forall>ca \<in> set argv. fst ca \<noteq> CHR ''c''" and "bind_ret w \<noteq> - 1"
      and "Recv_error \<notin> set (incoming w)"
  shows "snd (main argv w) = (if length (incoming w) < 1000000 then Blocked else Returned 0) \<and>
         length (replies (fst (main argv w))) = min (length (incoming w)) 1000000"
proof -
  from assms(1) have "rounds (count (getopt_loop argv initial_options)) = 1000000"
    by (simp add: getopt_loop_count initial_options_def rounds_def)
  with assms(2,3) show ?thesis
    by (simp add: main_outcome main_replies delivered_all)
qed

theorem default_count_witness:
  "snd (main [(CHR ''4'', 0)] (sample_world 0
       (replicate 3 (Recv_datagram (sample_datagram [104, 105] []))))) = Blocked \<and>
   length (replies (fst (main [(CHR ''4'', 0)] (sample_world 0
       (replicate 3 (Recv_datagram (sample_datagram [104, 105] []))))))) = 3"
  using default_count [where argv = "[(CHR ''4'', 0)]"
      and w = "sample_world 0 (replicate 3 (Recv_datagram (sample_datagram [104, 105] [])))"]
  by (simp add: sample_world_def)

text \<open>
  Claim C10. A count of 0, or any count that is not positive, does not stop the loop
  before its first reply: \<^verbatim>\<open>--count\<close> leaves 0 first and comes back to it only after
  \<open>2 ^ 32 + N\<close> decrements, which is at least \<open>2 ^ 31\<close> and more than the \<open>N + 2 ^ 31\<close>
  steps down to the least \<^verbatim>\<open>int\<close>, so only by wrapping around. While fewer datagrams
  than that have arrived and no receive fails, every one has been answered and the loop
  waits for the next.
\<close>

theorem count_zero_unbounded:
  assumes "count (getopt_loop argv initial_options) = N" and "sint N \<le> 0"
      and "bind_ret w \<noteq> - 1" and "Recv_error \<notin> set (incoming w)"
  shows "snd (main argv w) =
           (if length (incoming w) < nat (2 ^ 32 + sint N) then Blocked else Returned 0) \<and>
         length (replies (fst (main argv w))) = min (length (incoming w)) (nat (2 ^ 32 + sint N)) \<and>
         2 ^ 31 \<le> nat (2 ^ 32 + sint N)"
proof -
  from assms(1,2) have "rounds (count (getopt_loop argv initial_options)) = nat (2 ^ 32 + sint N)"
    by (simp add: rounds_nonpositive)
  moreover have "2 ^ 31 \<le> nat (2 ^ 32 + sint N)"
    using sint_c_int_bounds(1) [of N] by simp
  ultimately show ?thesis
    using assms(3,4) by (simp add: main_outcome main_replies delivered_all)
qed

theorem count_zero_unbounded_witness:
  "snd (main [(CHR ''c'', 0)] (sample_world 0
       (replicate 3 (Recv_datagram (sample_datagram [104, 105] []))))) = Blocked \<and>
   length (replies (fst (main [(CHR ''c'', 0)] (sample_world 0
       (replicate 3 (Recv_datagram (sample_datagram [104, 105] []))))))) = 3"
  using count_zero_unbounded [where argv = "[(CHR ''c'', 0)]" and N = 0
      and w = "sample_world 0 (replicate 3 (Recv_datagram (sample_datagram [104, 105] [])))"]
  by (simp add: sample_world_def set_option_def initial_options_def)

section \<open>The claims about startup\<close>

text \<open>
  Claim C7. When \<^verbatim>\<open>bind\<close> returns \<open>-1\<close>, \<^verbatim>\<open>main\<close> reports it with \<^verbatim>\<open>perror("bind")\<close>
  and returns 1 at once: \<^verbatim>\<open>bind\<close> is called once, and no receive is ever made.
\<close>

theorem bind_failure_fatal:
  assumes "bind_ret w = - 1"
  shows "main argv w =
           ([Sys_socket (addr_family (getopt_loop argv initial_options)),
             Sys_bind (addr_family (getopt_loop argv initial_options))
               (listen_port (getopt_loop argv initial_options)),
             Perror ''bind''], Returned 1) \<and>
         Returned 1 \<noteq> Returned 0 \<and> Sys_recvmsg \<notin> set (fst (main argv w))"
  using assms by (simp add: main_bind_failed)

theorem bind_failure_fatal_witness:
  "main [(CHR ''4'', 0)] (sample_world (- 1) [Recv_datagram (sample_datagram [104, 105] [])]) =
     ([Sys_socket AF_INET, Sys_bind AF_INET PORT, Perror ''bind''], Returned 1)"
  using bind_failure_fatal [where argv = "[(CHR ''4'', 0)]"
      and w = "sample_world (- 1) [Recv_datagram (sample_datagram [104, 105] [])]"]
  by (simp add: sample_world_def set_option_def initial_options_def)

text \<open>
  Claim C8, as the program has it. In the two sample runs both \<^verbatim>\<open>setsockopt\<close> calls
  fail. In the first, \<^verbatim>\<open>main\<close> goes from the two calls straight to its first receive and
  writes nothing. In the second, with \<^verbatim>\<open>-v 0\<close>, a datagram arrives and is answered, and
  the run writes no diagnostic at all: the failure goes unreported.
\<close>

theorem setsockopt_failure_silent:
  "setsockopt_ip_ret ((sample_world 0 [])\<lparr>setsockopt_ip_ret := - 1, setsockopt_ipv6_ret := - 1\<rparr>)
     = - 1 \<and>
   setsockopt_ipv6_ret ((sample_world 0 [])\<lparr>setsockopt_ip_ret := - 1, setsockopt_ipv6_ret := - 1\<rparr>)
     = - 1 \<and>
   main [] ((sample_world 0 [])\<lparr>setsockopt_ip_ret := - 1, setsockopt_ipv6_ret := - 1\<rparr>) =
     ([Sys_socket AF_INET6, Sys_bind AF_INET6 PORT, Sys_setsockopt SOL_IP IP_PKTINFO,
       Sys_setsockopt IPPROTO_IPV6 IPV6_RECVPKTINFO, Sys_recvmsg], Blocked) \<and>
   diagnostics (fst (main [(CHR ''v'', 0)]
     ((sample_world 0 [Recv_datagram (sample_datagram [104, 105] [])])
        \<lparr>setsockopt_ip_ret := - 1, setsockopt_ipv6_ret := - 1\<rparr>))) = [] \<and>
   replies (fst (main [(CHR ''v'', 0)]
     ((sample_world 0 [Recv_datagram (sample_datagram [104, 105] [])])
        \<lparr>setsockopt_ip_ret := - 1, setsockopt_ipv6_ret := - 1\<rparr>))) = [[104, 105]]"
  by (simp add: main_def sample_world_def sample_datagram_def initial_options_def set_option_def
        receive_def recvmsg_def reply_def diagnostics_def Let_def sizeof_frame_def
        sizeof_sockaddr_storage_def sizeof_cbuf_def)

text \<open>
  Claim C8, amended. A failure of the request for destination metadata is not fatal:
  \<^verbatim>\<open>main\<close> never looks at what the two \<^verbatim>\<open>setsockopt\<close> calls return, so a run does the same
  whatever they return, and after a successful bind the first receive follows the two
  calls directly, with nothing written between.
\<close>

theorem setsockopt_result_dropped:
  "main argv (w\<lparr>setsockopt_ip_ret := r4, setsockopt_ipv6_ret := r6\<rparr>) = main argv w \<and>
   (bind_ret w \<noteq> - 1 \<longrightarrow>
      take 5 (fst (main argv w)) =
        [Sys_socket (addr_family (getopt_loop argv initial_options)),
         Sys_bind (addr_family (getopt_loop argv initial_options))
           (listen_port (getopt_loop argv initial_options)),
         Sys_setsockopt SOL_IP IP_PKTINFO, Sys_setsockopt IPPROTO_IPV6 IPV6_RECVPKTINFO,
         Sys_recvmsg])"
proof -
  have "main argv (w\<lparr>setsockopt_ip_ret := r4, setsockopt_ipv6_ret := r6\<rparr>) = main argv w"
    by (cases "bind_ret w = - 1") (simp_all add: main_def Let_def)
  moreover obtain es where
    "fst (service_loop (verbose (getopt_loop argv initial_options)) (incoming w)
        (count (getopt_loop argv initial_options)) (frame0 w) (rem_addr0 w)) = Sys_recvmsg # es"
    using service_loop_starts by blast
  ultimately show ?thesis
    by (simp add: main_bound)
qed

theorem setsockopt_result_dropped_witness:
  "main [] ((sample_world 0 [])\<lparr>setsockopt_ip_ret := - 1, setsockopt_ipv6_ret := - 1\<rparr>) =
     main [] (sample_world 0 []) \<and>
   take 5 (fst (main [] (sample_world 0 []))) =
     [Sys_socket AF_INET6, Sys_bind AF_INET6 PORT, Sys_setsockopt SOL_IP IP_PKTINFO,
      Sys_setsockopt IPPROTO_IPV6 IPV6_RECVPKTINFO, Sys_recvmsg]"
  using setsockopt_result_dropped [where argv = "[]" and w = "sample_world 0 []"
      and ?r4.0 = "- 1" and ?r6.0 = "- 1"]
  by (simp add: sample_world_def initial_options_def)

section \<open>The claim about the decoded family\<close>

text \<open>
  Claim C9, as the program has it. The socket is bound for IPv6 (the default) and
  receives an IPv4 datagram, whose block ends in an IPv4 destination-info record. The
  decoder returns \<open>AF_INET\<close>, \<^verbatim>\<open>print_info\<close> reads the \<^verbatim>\<open>sockaddr_in6\<close> of the peer as
  a \<^verbatim>\<open>sockaddr_in\<close> (the source address printed is the four bytes of the flow label),
  and the run writes no diagnostic.
\<close>

theorem other_family_accepted:
  "addr_family (getopt_loop [] initial_options) = AF_INET6 \<and>
   res (pktinfo_get (fst (snd (receive (Recv_datagram (sample_mapped_datagram [104, 105]))
          (replicate 8192 0) (replicate 128 0)))) None None) = AF_INET \<and>
   AF_INET \<noteq> AF_INET6 \<and>
   fst (main [] (sample_world 0 [Recv_datagram (sample_mapped_datagram [104, 105])])) =
     [Sys_socket AF_INET6, Sys_bind AF_INET6 PORT, Sys_setsockopt SOL_IP IP_PKTINFO,
      Sys_setsockopt IPPROTO_IPV6 IPV6_RECVPKTINFO, Sys_recvmsg,
      Got_contacted (Some (AF_INET, [10, 0, 0, 5])) (Some (AF_INET, [0, 0, 0, 0])) (Some 5000),
      Extra_data (Some [10, 0, 0, 5]) (Some [2, 0, 0, 0]), Echo_back 2,
      Sys_sendmsg [104, 105]
        ([10, 0, 19, 136, 0, 0, 0, 0] @ replicate 10 0 @ [255, 255, 10, 0, 0, 7] @ [0, 0, 0, 0])
        [sample_pktinfo6 (replicate 10 0 @ [255, 255, 10, 0, 0, 5]), sample_pktinfo4 [10, 0, 0, 5]]
        80,
      Sys_recvmsg] \<and>
   diagnostics (fst (main [] (sample_world 0 [Recv_datagram (sample_mapped_datagram [104, 105])])))
     = []"
  by code_simp


text \<open>
  Claim C9, amended. The decoded family is that of the last destination-info record of
  the block, and \<open>-1\<close> when there is none; the family the socket was bound with plays no
  part: after the \<^verbatim>\<open>socket\<close> and \<^verbatim>\<open>bind\<close> calls, a run with \<^verbatim>\<open>-4\<close> and one with \<^verbatim>\<open>-6\<close> do
  the same on the same input. The decoder writes a line for each record that is not a
  destination-info record and for no other.
\<close>

theorem decoded_family_from_block:
  "res (pktinfo_get h p p6) =
     (if 0 < msg_controllen h \<and> filter recognised (msg_control h) \<noteq> []
      then family_of (last (filter recognised (msg_control h))) else - 1) \<and>
   diag (pktinfo_get h p p6) =
     (if 0 < msg_controllen h
      then map unknown_line (filter (\<lambda>c. \<not> recognised c) (msg_control h)) else []) \<and>
   drop 2 (fst (main (argv @ [(CHR ''4'', a)]) w)) =
     drop 2 (fst (main (argv @ [(CHR ''6'', b)]) w))"
proof -
  let ?s = "getopt_loop argv initial_options"
  have v: "verbose (getopt_loop (argv @ [(CHR ''4'', a)]) initial_options) = verbose ?s"
      "verbose (getopt_loop (argv @ [(CHR ''6'', b)]) initial_options) = verbose ?s"
    by (simp_all add: getopt_loop_append set_option_def)
  have c: "count (getopt_loop (argv @ [(CHR ''4'', a)]) initial_options) = count ?s"
      "count (getopt_loop (argv @ [(CHR ''6'', b)]) initial_options) = count ?s"
    by (simp_all add: getopt_loop_append set_option_def)
  have "drop 2 (fst (main (argv @ [(CHR ''4'', a)]) w)) =
      drop 2 (fst (main (argv @ [(CHR ''6'', b)]) w))"
  proof (cases "bind_ret w = - 1")
    case True
    then show ?thesis by (simp add: main_bind_failed)
  next
    case False
    then show ?thesis by (simp add: main_bound v c)
  qed
  then show ?thesis
    by (simp add: res_pktinfo_get diag_pktinfo_get)
qed

theorem decoded_family_from_block_witness:
  "res (pktinfo_get (sample_hdr (dg_control (sample_mapped_datagram []))) None None) = AF_INET \<and>
   diag (pktinfo_get (sample_hdr (dg_control (sample_mapped_datagram []))) None None) = [] \<and>
   drop 2 (fst (main ([] @ [(CHR ''4'', 0)])
      (sample_world 0 [Recv_datagram (sample_mapped_datagram [])]))) =
   drop 2 (fst (main ([] @ [(CHR ''6'', 0)])
      (sample_world 0 [Recv_datagram (sample_mapped_datagram [])])))"
  using decoded_family_from_block [where h = "sample_hdr (dg_control (sample_mapped_datagram []))"
      and p = None and ?p6.0 = None and argv = "[]" and a = 0 and b = 0
      and w = "sample_world 0 [Recv_datagram (sample_mapped_datagram [])]"]
  by (simp add: sample_hdr_def sample_mapped_datagram_def sample_pktinfo4_def sample_pktinfo6_def
        recognised_def is_pktinfo4_def is_pktinfo6_def family_of_def IPPROTO_IP_def
        IPPROTO_IPV6_def IP_PKTINFO_def IPV6_PKTINFO_def)

end
